theory Spec2Isabelle
  imports Complex_Main
begin

section \<open>Python values\<close>

text \<open>
  The library handles values decoded from JSON and values handed in by the caller.
  Both are Python objects; \<open>json\<close> is the part of them that \<open>json.loads\<close> can
  produce. A Python \<open>float\<close> that is finite is modelled by the rational it denotes,
  \<open>JNonFinite\<close> stands for \<open>nan\<close> and the infinities, \<open>JNull\<close> for \<open>None\<close>.
  A \<open>dict\<close> is an association list in insertion order, read with \<open>map_of\<close>.
  A Python \<open>str\<close> is modelled by its UTF-8 bytes, so that \<open>str.encode\<close> and
  \<open>bytes.decode\<close> are the identity.
\<close>

datatype json =
    JNull
  | JBool bool
  | JInt int
  | JFloat rat
  | JNonFinite
  | JStr string
  | JArr "json list"
  | JObj "(string \<times> json) list"

text \<open>Truth value testing, as in \<open>if ts:\<close>.\<close>

fun truthy :: "json \<Rightarrow> bool" where
  "truthy JNull = False"
| "truthy (JBool b) = b"
| "truthy (JInt i) = (i \<noteq> 0)"
| "truthy (JFloat q) = (q \<noteq> 0)"
| "truthy JNonFinite = True"
| "truthy (JStr s) = (s \<noteq> [])"
| "truthy (JArr xs) = (xs \<noteq> [])"
| "truthy (JObj kvs) = (kvs \<noteq> [])"

text \<open>The comparison \<open>errcode == 1101\<close> of a decoded value with an integer literal.\<close>

fun py_eq_int :: "json \<Rightarrow> int \<Rightarrow> bool" where
  "py_eq_int (JInt i) n = (i = n)"
| "py_eq_int (JFloat q) n = (q = of_int n)"
| "py_eq_int (JBool b) n = ((if b then 1 else 0) = n)"
| "py_eq_int JNull n = False"
| "py_eq_int JNonFinite n = False"
| "py_eq_int (JStr s) n = False"
| "py_eq_int (JArr xs) n = False"
| "py_eq_int (JObj kvs) n = False"

text \<open>\<open>str\<close> of an \<open>int\<close>: its decimal digits, with a minus sign when negative.\<close>

fun str_nat :: "nat \<Rightarrow> string" where
  "str_nat n = (if n < 10 then [''0123456789'' ! n]
                else str_nat (n div 10) @ [''0123456789'' ! (n mod 10)])"

declare str_nat.simps [simp del]

definition str_int :: "int \<Rightarrow> string" where
  "str_int i = (if i < 0 then ''-'' @ str_nat (nat (- i)) else str_nat (nat i))"

section \<open>Exceptions\<close>

text \<open>
  The twelve exception classes the module declares, and the exceptions of Python itself
  that its code can raise. The module's own \<open>TypeError\<close> class is \<open>TypeError\<close>;
  the interpreter's is \<open>BuiltinTypeError\<close>.
\<close>

datatype kind =
    AuthenticationError
  | InternalError
  | NotFoundError
  | AlreadyExistError
  | NotAllowedError
  | UsageLimitError
  | PayloadLimitError
  | UnexpectedError
  | BadRequestError
  | ParameterError
  | TypeError
  | BadTypeError

datatype exn =
    BBTError kind string
  | JSONDecodeError
  | KeyError json
  | BuiltinTypeError
  | IndexError
  | NameError string
  | RequestException string

text \<open>
  Subscription \<open>obj[key]\<close> with a string key and with an integer index. A \<open>dict\<close>
  decoded from JSON has string keys only, so an integer key is never found. Indexing a
  \<open>str\<close> yields a character: in the UTF-8 bytes, a leading byte together with the
  continuation bytes (\<open>0x80\<close> to \<open>0xBF\<close>) that follow it.
\<close>

definition is_continuation :: "char \<Rightarrow> bool" where
  "is_continuation c = (128 \<le> (of_char c :: nat) \<and> (of_char c :: nat) < 192)"

function utf8_chars :: "string \<Rightarrow> string list" where
  "utf8_chars [] = []"
| "utf8_chars (c # cs) =
     (c # takeWhile is_continuation cs) # utf8_chars (dropWhile is_continuation cs)"
  by pat_completeness auto
termination
  by (relation "measure length") (simp_all add: length_dropWhile_le less_Suc_eq_le)

fun getitem_str :: "json \<Rightarrow> string \<Rightarrow> exn + json" where
  "getitem_str (JObj kvs) k =
     (case map_of kvs k of None \<Rightarrow> Inl (KeyError (JStr k)) | Some v \<Rightarrow> Inr v)"
| "getitem_str JNull k = Inl BuiltinTypeError"
| "getitem_str (JBool b) k = Inl BuiltinTypeError"
| "getitem_str (JInt i) k = Inl BuiltinTypeError"
| "getitem_str (JFloat q) k = Inl BuiltinTypeError"
| "getitem_str JNonFinite k = Inl BuiltinTypeError"
| "getitem_str (JStr s) k = Inl BuiltinTypeError"
| "getitem_str (JArr xs) k = Inl BuiltinTypeError"

definition seq_index :: "'a list \<Rightarrow> int \<Rightarrow> exn + 'a" where
  "seq_index xs i =
     (let n = int (length xs); j = (if i < 0 then i + n else i)
      in if j < 0 \<or> n \<le> j then Inl IndexError else Inr (xs ! nat j))"

fun getitem_int :: "json \<Rightarrow> int \<Rightarrow> exn + json" where
  "getitem_int (JArr xs) i = seq_index xs i"
| "getitem_int (JStr s) i = map_sum id JStr (seq_index (utf8_chars s) i)"
| "getitem_int (JObj kvs) i = Inl (KeyError (JInt i))"
| "getitem_int JNull i = Inl BuiltinTypeError"
| "getitem_int (JBool b) i = Inl BuiltinTypeError"
| "getitem_int (JInt k) i = Inl BuiltinTypeError"
| "getitem_int (JFloat q) i = Inl BuiltinTypeError"
| "getitem_int JNonFinite i = Inl BuiltinTypeError"

section \<open>The environment of a call\<close>

text \<open>
  What the module imports and does not define: the digests and encodings of the standard
  library, the JSON codec, \<open>str\<close> on a decoded value, the clock and the HTTP transport
  of \<open>requests\<close>. They are parameters of the model. \<open>formatdate\<close> is what
  \<open>email.utils.formatdate()\<close> returns during the call, \<open>time_ms\<close> is
  \<open>round(time.time() * 1000)\<close> (an \<open>int\<close> in Python 3), \<open>json_dumps\<close> is
  \<open>json.dumps\<close> with \<open>separators=(',', ':')\<close>.
\<close>

datatype http_request =
    POST (req_url: string) (req_data: string) (req_headers: "(string \<times> string) list")
  | GET (req_url: string) (req_params: "(string \<times> json) list")
        (req_headers: "(string \<times> string) list")

record env =
  hmac_sha1 :: "string \<Rightarrow> string \<Rightarrow> string"
  md5_digest :: "string \<Rightarrow> string"
  b64encode :: "string \<Rightarrow> string"
  json_loads :: "string \<Rightarrow> json option"
  json_dumps :: "json \<Rightarrow> string"
  urlencode :: "(string \<times> json) list \<Rightarrow> string"
  py_str :: "json \<Rightarrow> string"
  formatdate :: string
  time_ms :: int
  requests :: "http_request \<Rightarrow> exn + int \<times> string"

text \<open>
  What a method that may touch the network does: the requests it issued, in order, and
  the value it returned or the exception it raised.
\<close>

type_synonym outcome = "http_request list \<times> (exn + json)"

section \<open>The client\<close>

definition publicReadEndpoint :: string where
  "publicReadEndpoint = ''/vi/public/data/read''"

definition readEndpoint :: string where
  "readEndpoint = ''/v1/data/read''"

definition writeEndpoint :: string where
  "writeEndpoint = ''/v1/data/write''"

definition publishEndpoint :: string where
  "publishEndpoint = ''/v1/data/publish''"

record BBT =
  akey :: string
  skey :: string
  hostname :: string
  port :: string
  ssl :: bool

definition sign :: "env \<Rightarrow> BBT \<Rightarrow> string \<Rightarrow> string" where
  "sign E self stringToSign =
     (let signature = hmac_sha1 E (skey self) stringToSign
      in akey self @ '':'' @ b64encode E signature)"

text \<open>The parameters keep the order of the source: verb, uri, date, c_type, c_md5.\<close>

definition signRequest :: "env \<Rightarrow> BBT \<Rightarrow> string \<Rightarrow> string \<Rightarrow> string \<Rightarrow> string \<Rightarrow> string \<Rightarrow> string" where
  "signRequest E self verb uri date c_type c_md5 =
     (let stringToSign = verb @ ''\<newline>'' @ c_md5 @ ''\<newline>'' @ c_type @ ''\<newline>''
                           @ date @ ''\<newline>'' @ uri
      in sign E self stringToSign)"

text \<open>
  The canonical string as the specification words it: the five fields
  VERB, ContentMD5, ContentType, Date, URI, in that order, joined by newlines.
\<close>

fun join_lines :: "string list \<Rightarrow> string" where
  "join_lines [] = []"
| "join_lines [l] = l"
| "join_lines (l # ls) = l @ ''\<newline>'' @ join_lines ls"

definition canonical_string :: "string \<Rightarrow> string \<Rightarrow> string \<Rightarrow> string \<Rightarrow> string \<Rightarrow> string" where
  "canonical_string verb content_md5 content_type date uri =
     join_lines [verb, content_md5, content_type, date, uri]"

subsection \<open>Responses\<close>

record response =
  status :: int
  data :: string

text \<open>
  The branch of \<open>__processResponse__\<close> for a status of 400 and above, once the code and
  the message have been read from the body: the exception it raises.
\<close>

definition raise_error :: "env \<Rightarrow> int \<Rightarrow> json \<Rightarrow> json \<Rightarrow> exn" where
  "raise_error E code errcode errmsg =
     (let other = ''Status: '' @ str_int code @ ''; Code '' @ py_str E errcode
                    @ ''; Message: '' @ py_str E errmsg
      in
      if code = 400 then
        (if py_eq_int errcode 1101 then
           BBTError AuthenticationError (''Status: 400; Code 1101; Message: '' @ py_str E errmsg)
         else if py_eq_int errcode 1401 then
           BBTError ParameterError (''Status: 400; Code 1401; Message: '' @ py_str E errmsg)
         else if py_eq_int errcode 1403 then
           BBTError BadRequestError (''Status: 400; Code 1403; Message: '' @ py_str E errmsg)
         else if py_eq_int errcode 1404 then
           BBTError TypeError (''Status: 400; Code 1404; Message: '' @ py_str E errmsg)
         else if py_eq_int errcode 1405 then
           BBTError BadTypeError (''Status: 400; Code 1405; Message: '' @ py_str E errmsg)
         else if py_eq_int errcode 1406 then
           BBTError PayloadLimitError (''Status: 400; Code 1406; Message: '' @ py_str E errmsg)
         else BBTError UnexpectedError other)
      else if code = 405 then
        (if py_eq_int errcode 1102 then
           BBTError NotAllowedError (''Status: 405; Code 1102; Message: '' @ py_str E errmsg)
         else BBTError UnexpectedError other)
      else if code = 500 then
        (if py_eq_int errcode 1201 then
           BBTError InternalError (''Status: 500; Code 1201; Message: '' @ py_str E errmsg)
         else BBTError InternalError other)
      else if code = 404 then
        (if py_eq_int errcode 1301 then
           BBTError NotFoundError (''Status: 404; Code 1301; Message: '' @ py_str E errmsg)
         else if py_eq_int errcode 1302 then
           BBTError NotFoundError (''Status: 404; Code 1302; Message: '' @ py_str E errmsg)
         else if py_eq_int errcode 1303 then
           BBTError NotFoundError (''Status: 404; Code 1303; Message: '' @ py_str E errmsg)
         else if py_eq_int errcode 1304 then
           BBTError AlreadyExistError (''Status: 404; Code 1304; Message: '' @ py_str E errmsg)
         else if py_eq_int errcode 1305 then
           BBTError AlreadyExistError (''Status: 404; Code 1305; Message: '' @ py_str E errmsg)
         else if py_eq_int errcode 1306 then
           BBTError AlreadyExistError (''Status: 404; Code 1306; Message: '' @ py_str E errmsg)
         else BBTError UnexpectedError other)
      else BBTError UnexpectedError other)"

text \<open>
  \<open>json.loads\<close> runs before the status is looked at; \<open>data['error']\<close> is read for
  the code and again for the message.
\<close>

definition processResponse :: "env \<Rightarrow> response \<Rightarrow> exn + json" where
  "processResponse E resp =
     (let code = status resp in
      case json_loads E (data resp) of
        None \<Rightarrow> Inl JSONDecodeError
      | Some body \<Rightarrow>
          if code < 400 then Inr body
          else
            (case getitem_str body ''error'' of
               Inl e \<Rightarrow> Inl e
             | Inr err \<Rightarrow>
                 (case getitem_str err ''code'' of
                    Inl e \<Rightarrow> Inl e
                  | Inr errcode \<Rightarrow>
                      (case getitem_str err ''message'' of
                         Inl e \<Rightarrow> Inl e
                       | Inr errmsg \<Rightarrow> Inl (raise_error E code errcode errmsg)))))"

subsection \<open>Requests\<close>

definition base_url :: "BBT \<Rightarrow> string \<Rightarrow> string" where
  "base_url self uri =
     (if ssl self then ''https'' @ ''://'' @ hostname self @ '':'' @ port self @ uri
      else ''http'' @ ''://'' @ hostname self @ '':'' @ port self @ uri)"

definition send :: "env \<Rightarrow> http_request \<Rightarrow> outcome" where
  "send E req =
     ([req],
      case requests E req of
        Inl e \<Rightarrow> Inl e
      | Inr (code, text) \<Rightarrow> processResponse E \<lparr>status = code, data = text\<rparr>)"

definition postData :: "env \<Rightarrow> BBT \<Rightarrow> string \<Rightarrow> string \<Rightarrow> bool \<Rightarrow> outcome" where
  "postData E self uri body auth =
     (let url = base_url self uri;
          md5 = b64encode E (md5_digest E body);
          date = formatdate E;
          headers =
            (if auth then
               [(''Content-MD5'', md5), (''Content-Type'', ''application/json''),
                (''Date'', date),
                (''Authorization'', signRequest E self ''POST'' uri date ''application/json'' md5)]
             else
               [(''Content-MD5'', md5), (''Content-Type'', ''application/json''),
                (''Date'', date)])
      in send E (POST url body headers))"

definition getData :: "env \<Rightarrow> BBT \<Rightarrow> string \<Rightarrow> (string \<times> json) list \<Rightarrow> bool \<Rightarrow> outcome" where
  "getData E self uri query auth =
     (let url = base_url self uri;
          full_uri = uri @ ''?'' @ urlencode E query;
          date = formatdate E;
          headers =
            (if auth then
               [(''Content-Type'', ''application/json''), (''Date'', date),
                (''Authorization'', signRequest E self ''GET'' full_uri date ''application/json'' [])]
             else
               [(''Content-Type'', ''application/json''), (''Date'', date)])
      in send E (GET url query headers))"

subsection \<open>Reading\<close>

text \<open>
  The query of both read methods. A truthy \<open>sample_rate\<close> evaluates the expression
  \<open>sample-rate\<close>, a subtraction of two names that are not defined.
\<close>

definition read_query ::
  "json \<Rightarrow> json \<Rightarrow> json \<Rightarrow> json \<Rightarrow> json \<Rightarrow> exn + (string \<times> json) list" where
  "read_query limit source time_range data_filter sample_rate =
     (let query = [(''limit'', limit), (''source'', source)];
          query = (if truthy time_range then query @ [(''time-range'', time_range)] else query);
          query = (if truthy data_filter then query @ [(''filter'', data_filter)] else query)
      in if truthy sample_rate then Inl (NameError ''sample'') else Inr query)"

definition readPublic ::
  "env \<Rightarrow> BBT \<Rightarrow> string \<Rightarrow> string \<Rightarrow> string \<Rightarrow> json \<Rightarrow> json \<Rightarrow> json \<Rightarrow> json \<Rightarrow> json \<Rightarrow> outcome" where
  "readPublic E self owner channel resource limit source time_range data_filter sample_rate =
     (case read_query limit source time_range data_filter sample_rate of
        Inl e \<Rightarrow> ([], Inl e)
      | Inr query \<Rightarrow>
          (let endpoint = publicReadEndpoint @ ''/'' @ owner @ ''/'' @ channel @ ''/'' @ resource
           in getData E self endpoint query False))"

definition read ::
  "env \<Rightarrow> BBT \<Rightarrow> string \<Rightarrow> string \<Rightarrow> json \<Rightarrow> json \<Rightarrow> json \<Rightarrow> json \<Rightarrow> json \<Rightarrow> outcome" where
  "read E self channel resource limit source time_range data_filter sample_rate =
     (case read_query limit source time_range data_filter sample_rate of
        Inl e \<Rightarrow> ([], Inl e)
      | Inr query \<Rightarrow>
          (let endpoint = readEndpoint @ ''/'' @ channel @ ''/'' @ resource
           in getData E self endpoint query False))"

text \<open>\<open>read(channel, resource)\<close> with every optional parameter at its default.\<close>

definition read_defaults :: "env \<Rightarrow> BBT \<Rightarrow> string \<Rightarrow> string \<Rightarrow> outcome" where
  "read_defaults E self channel resource =
     read E self channel resource (JInt 1) (JStr ''raw'') JNull JNull JNull"

subsection \<open>Writing and publishing\<close>

text \<open>The method \<open>BBT.write\<close>; \<^theory_text>\<open>write\<close> is a keyword of Isar.\<close>

definition bbt_write :: "env \<Rightarrow> BBT \<Rightarrow> string \<Rightarrow> string \<Rightarrow> json \<Rightarrow> json \<Rightarrow> outcome" where
  "bbt_write E self channel resource value ts =
     (let body = [(''data'', value)];
          body = (if truthy ts then body @ [(''ts'', ts)]
                  else body @ [(''ts'', JInt (time_ms E))]);
          endpoint = writeEndpoint @ ''/'' @ channel @ ''/'' @ resource
      in postData E self endpoint (json_dumps E (JObj body)) True)"

definition publish :: "env \<Rightarrow> BBT \<Rightarrow> string \<Rightarrow> string \<Rightarrow> json \<Rightarrow> json \<Rightarrow> json \<Rightarrow> outcome" where
  "publish E self channel resource value ts source =
     (let body = [(''data'', value)];
          body = (if truthy source then body @ [(''source'', source)] else body);
          body = (if truthy ts then body @ [(''ts'', ts)]
                  else body @ [(''ts'', JInt (time_ms E))]);
          endpoint = publishEndpoint @ ''/'' @ channel @ ''/'' @ resource
      in postData E self endpoint (json_dumps E (JObj body)) True)"

text \<open>
  Both bulk methods build their endpoint as
  \<open>"%s/%s" % (__writeEndpoint__, channel, resource)\<close>. No name \<open>resource\<close> is bound in
  the method or in the module, so evaluating the tuple raises \<open>NameError\<close> before
  \<open>__postData__\<close> is reached.
\<close>

definition writeBulk :: "env \<Rightarrow> BBT \<Rightarrow> string \<Rightarrow> json \<Rightarrow> outcome" where
  "writeBulk E self channel data_array =
     (let body = [(''data'', data_array)]
      in ([], Inl (NameError ''resource'')))"

definition publishBulk :: "env \<Rightarrow> BBT \<Rightarrow> string \<Rightarrow> json \<Rightarrow> outcome" where
  "publishBulk E self channel data_array =
     (let body = [(''data'', data_array)]
      in ([], Inl (NameError ''resource'')))"

subsection \<open>Client authentication\<close>

definition auth_client ::
  "env \<Rightarrow> BBT \<Rightarrow> string \<Rightarrow> string \<Rightarrow> string \<Rightarrow> int \<Rightarrow> bool \<Rightarrow> bool \<Rightarrow> string" where
  "auth_client E self sid channel resource ttl rd wr =
     (let r = (if rd then ''true'' else ''false'');
          w = (if wr then ''true'' else ''false'');
          stringToSign = sid @ '':'' @ channel @ ''.'' @ resource @ ''.:ttl='' @ str_int ttl
                           @ '':read='' @ r @ '':write='' @ w
      in sign E self stringToSign)"

section \<open>Resources and data points\<close>

record Resource =
  channel :: string
  resource :: string
  bbt :: BBT

definition recentVal :: "env \<Rightarrow> Resource \<Rightarrow> outcome" where
  "recentVal E self =
     (case read E (bbt self) (channel self) (resource self) (JInt 1) (JStr ''raw'')
             JNull JNull JNull of
        (sent, Inl e) \<Rightarrow> (sent, Inl e)
      | (sent, Inr records) \<Rightarrow> (sent, getitem_int records 0))"

record DataPoint =
  dp_channel :: json
  dp_resource :: json
  dp_data :: json
  dp_ts :: json

definition fromJSON :: "json \<Rightarrow> exn + DataPoint" where
  "fromJSON params =
     (case getitem_str params ''data'' of
        Inl e \<Rightarrow> Inl e
      | Inr d \<Rightarrow>
          (case getitem_str params ''ts'' of
             Inl e \<Rightarrow> Inl e
           | Inr t \<Rightarrow> Inr \<lparr>dp_channel = JNull, dp_resource = JNull, dp_data = d, dp_ts = t\<rparr>))"

definition toJSON :: "DataPoint \<Rightarrow> json \<Rightarrow> json" where
  "toJSON self owner =
     JObj [(''owner'', owner), (''channel'', dp_channel self), (''resource'', dp_resource self),
           (''data'', dp_data self), (''ts'', dp_ts self)]"

section \<open>Tables of the specification\<close>

text \<open>
  The table of error kinds as the specification gives it, keyed by HTTP status and
  application error code; its kind \<open>InvalidType\<close> is the module's \<open>TypeError\<close>.
\<close>

definition spec_table :: "int \<Rightarrow> int \<Rightarrow> kind" where
  "spec_table st c =
     (if st = 400 \<and> c = 1101 then AuthenticationError
      else if st = 400 \<and> c = 1401 then ParameterError
      else if st = 400 \<and> c = 1403 then BadRequestError
      else if st = 400 \<and> c = 1404 then TypeError
      else if st = 400 \<and> c = 1405 then BadTypeError
      else if st = 400 \<and> c = 1406 then PayloadLimitError
      else if st = 405 \<and> c = 1102 then NotAllowedError
      else if st = 500 \<and> c = 1201 then InternalError
      else if st = 404 \<and> 1301 \<le> c \<and> c \<le> 1303 then NotFoundError
      else if st = 404 \<and> 1304 \<le> c \<and> c \<le> 1306 then AlreadyExistError
      else UnexpectedError)"

text \<open>The same table with one row changed: a status of 500 is \<open>InternalError\<close> for every code.\<close>

definition amended_table :: "int \<Rightarrow> int \<Rightarrow> kind" where
  "amended_table st c = (if st = 500 then InternalError else spec_table st c)"

text \<open>
  The integer that an \<open>error.code\<close> of any JSON type denotes, if it denotes one: an
  \<open>int\<close>, a \<open>float\<close> with an integral value (\<open>1101.0\<close> is the code 1101), a
  \<open>bool\<close> (in Python \<open>True == 1\<close>). Any other value is no code of the table.
\<close>

fun code_value :: "json \<Rightarrow> int option" where
  "code_value (JInt i) = Some i"
| "code_value (JFloat q) = (if q = of_int \<lfloor>q\<rfloor> then Some \<lfloor>q\<rfloor> else None)"
| "code_value (JBool b) = Some (if b then 1 else 0)"
| "code_value JNull = None"
| "code_value JNonFinite = None"
| "code_value (JStr s) = None"
| "code_value (JArr xs) = None"
| "code_value (JObj kvs) = None"

text \<open>
  Both tables read at a status and a code of any JSON type; a value that denotes no
  integer falls under the last row of the table, \<open>any other\<close>.
\<close>

definition spec_kind :: "int \<Rightarrow> json \<Rightarrow> kind" where
  "spec_kind st c =
     (case code_value c of None \<Rightarrow> UnexpectedError | Some n \<Rightarrow> spec_table st n)"

definition amended_kind :: "int \<Rightarrow> json \<Rightarrow> kind" where
  "amended_kind st c = (if st = 500 then InternalError else spec_kind st c)"

text \<open>
  A body that carries \<open>error.code\<close> and \<open>error.message\<close>: an object whose \<open>error\<close>
  member is an object with both members.
\<close>

fun has_error_fields :: "json \<Rightarrow> bool" where
  "has_error_fields (JObj kvs) =
     (case map_of kvs ''error'' of
        Some (JObj e) \<Rightarrow> map_of e ''code'' \<noteq> None \<and> map_of e ''message'' \<noteq> None
      | _ \<Rightarrow> False)"
| "has_error_fields _ = False"

text \<open>The value of a header of a request, \<open>None\<close> when the request does not carry it.\<close>

definition header :: "string \<Rightarrow> http_request \<Rightarrow> string option" where
  "header name req = map_of (req_headers req) name"

section \<open>A stubbed environment\<close>

text \<open>
  An environment for running the model on concrete calls: digests and encodings that tag
  their argument, a decoder that returns one fixed result, a transport that returns one
  fixed reply, a fixed clock.
\<close>

fun stub_str :: "json \<Rightarrow> string" where
  "stub_str (JStr s) = s"
| "stub_str (JInt i) = str_int i"
| "stub_str _ = ''?''"

definition stub_env :: "json option \<Rightarrow> exn + int \<times> string \<Rightarrow> env" where
  "stub_env parsed reply =
     \<lparr>hmac_sha1 = (\<lambda>k m. ''hmac('' @ k @ '','' @ m @ '')''),
      md5_digest = (\<lambda>s. ''md5('' @ s @ '')''),
      b64encode = (\<lambda>s. ''b64('' @ s @ '')''),
      json_loads = (\<lambda>s. parsed),
      json_dumps = (\<lambda>j. case j of JObj kvs \<Rightarrow> concat (map (\<lambda>(k, v). k @ ''='' @ stub_str v @ '';'') kvs)
                            | _ \<Rightarrow> stub_str j),
      urlencode = (\<lambda>q. concat (map (\<lambda>(k, v). k @ ''='' @ stub_str v @ ''&'') q)),
      py_str = stub_str,
      formatdate = ''Tue, 03 Nov 2015 10:00:00 -0000'',
      time_ms = 1446544800000,
      requests = (\<lambda>r. reply)\<rparr>"

definition stub_bbt :: BBT where
  "stub_bbt = \<lparr>akey = ''AK'', skey = ''SK'', hostname = ''api.beebotte.com'', port = ''80'',
               ssl = False\<rparr>"

definition error_body :: "int \<Rightarrow> string \<Rightarrow> json" where
  "error_body c m = JObj [(''error'', JObj [(''code'', JInt c), (''message'', JStr m)])]"

section \<open>Helper lemmas\<close>

lemma fst_send: "fst (send E req) = [req]"
  by (simp add: send_def)

lemma fst_postData:
  "fst (postData E self uri body auth) =
     [POST (base_url self uri) body
        ((''Content-MD5'', b64encode E (md5_digest E body)) #
         (''Content-Type'', ''application/json'') #
         (''Date'', formatdate E) #
         (if auth then
            [(''Authorization'',
              signRequest E self ''POST'' uri (formatdate E) ''application/json''
                (b64encode E (md5_digest E body)))]
          else []))]"
  by (simp add: postData_def fst_send Let_def)

lemma fst_getData:
  "fst (getData E self uri query auth) =
     [GET (base_url self uri) query
        ((''Content-Type'', ''application/json'') #
         (''Date'', formatdate E) #
         (if auth then
            [(''Authorization'',
              signRequest E self ''GET'' (uri @ ''?'' @ urlencode E query) (formatdate E)
                ''application/json'' [])]
          else []))]"
  by (simp add: getData_def fst_send Let_def)

lemma str_int_60: "str_int 60 = ''60''"
  by (simp add: str_int_def str_nat.simps)

section \<open>Signing\<close>

text \<open>
  C1. For every verb, uri, date, content type and content MD5, the signature of a request
  is the access key, a colon, and the base64 encoding of the HMAC-SHA1, keyed by the
  secret key, of the canonical string: the verb, the content MD5, the content type, the
  date and the URI, joined by newlines in that order. The result is a function of the
  credentials and the five fields alone.
\<close>

theorem signRequest_canonical:
  "signRequest E self verb uri date c_type c_md5 =
     akey self @ '':'' @
       b64encode E (hmac_sha1 E (skey self) (canonical_string verb c_md5 c_type date uri))
   \<and> signRequest (E\<lparr>formatdate := d, time_ms := t, requests := f\<rparr>) self verb uri date c_type c_md5 =
       signRequest E self verb uri date c_type c_md5"
  by (simp add: signRequest_def sign_def canonical_string_def)

text \<open>
  The example of the specification: method POST, MD5 abc, content type application/json,
  date D, URI /v1/data/write/c/r.
\<close>

theorem signRequest_canonical_witness:
  "signRequest (stub_env None (Inr (200, []))) stub_bbt
     ''POST'' ''/v1/data/write/c/r'' ''D'' ''application/json'' ''abc'' =
   ''AK:b64(hmac(SK,POST\<newline>abc\<newline>application/json\<newline>D\<newline>/v1/data/write/c/r))''"
  using signRequest_canonical [of "stub_env None (Inr (200, []))" stub_bbt
      "''POST''" "''/v1/data/write/c/r''" "''D''" "''application/json''" "''abc''"]
  by (simp add: canonical_string_def stub_env_def stub_bbt_def)

section \<open>Classifying responses\<close>

lemma py_eq_int_code_value: "py_eq_int c n \<longleftrightarrow> code_value c = Some n"
  by (cases c) auto

lemma raise_error_kind:
  "\<exists>msg. raise_error E st c m = BBTError (amended_kind st c) msg"
proof (cases "code_value c")
  case None
  then show ?thesis
    by (simp add: raise_error_def amended_kind_def spec_kind_def py_eq_int_code_value Let_def)
next
  case (Some n)
  then show ?thesis
    by (simp add: raise_error_def amended_kind_def spec_kind_def spec_table_def
        py_eq_int_code_value Let_def)
qed

lemma amended_kind_int: "amended_kind st (JInt n) = amended_table st n"
  by (simp add: amended_kind_def amended_table_def spec_kind_def)

lemma amended_kind_differs:
  "amended_kind st c \<noteq> spec_kind st c \<longleftrightarrow> st = 500 \<and> code_value c \<noteq> Some 1201"
  by (auto simp add: amended_kind_def spec_kind_def spec_table_def split: option.splits)

lemma amended_table_differs:
  "amended_table st c \<noteq> spec_table st c \<longleftrightarrow> st = 500 \<and> c \<noteq> 1201"
  by (simp add: amended_table_def spec_table_def)

text \<open>
  C2, as amended. A response with a status below 400 returns the parsed body. A response
  with a status of 400 or above whose body carries an \<open>error.code\<close> and an
  \<open>error.message\<close>, of any JSON type, raises the error kind of the table of the
  specification, except that a status of 500 raises \<open>InternalError\<close> for every code,
  not only for 1201.
\<close>

theorem processResponse_table:
  "(status resp < 400 \<and> json_loads E (data resp) = Some body
      \<longrightarrow> processResponse E resp = Inr body) \<and>
   (400 \<le> status resp \<and> json_loads E (data resp) = Some (JObj kvs) \<and>
    map_of kvs ''error'' = Some (JObj e) \<and> map_of e ''code'' = Some c \<and>
    map_of e ''message'' = Some m
      \<longrightarrow> (\<exists>msg. processResponse E resp = Inl (BBTError (amended_kind (status resp) c) msg)))"
  using raise_error_kind [of E "status resp" c m]
  by (auto simp add: processResponse_def Let_def)

theorem processResponse_table_witness:
  "processResponse (stub_env (Some (JArr [JInt 7])) (Inr (200, ''[7]'')))
     \<lparr>status = 200, data = ''[7]''\<rparr> = Inr (JArr [JInt 7]) \<and>
   (\<exists>msg. processResponse (stub_env (Some (error_body 1305 ''exists'')) (Inr (404, [])))
      \<lparr>status = 404, data = []\<rparr> = Inl (BBTError AlreadyExistError msg)) \<and>
   (\<exists>msg. processResponse
      (stub_env (Some (JObj [(''error'', JObj [(''code'', JFloat 1401), (''message'', JNull)])]))
         (Inr (400, [])))
      \<lparr>status = 400, data = []\<rparr> = Inl (BBTError ParameterError msg)) \<and>
   (\<exists>msg. processResponse
      (stub_env (Some (JObj [(''error'', JObj [(''code'', JStr ''1401''), (''message'', JNull)])]))
         (Inr (400, [])))
      \<lparr>status = 400, data = []\<rparr> = Inl (BBTError UnexpectedError msg))"
proof -
  let ?E1 = "stub_env (Some (JArr [JInt 7])) (Inr (200, ''[7]''))"
  let ?E2 = "stub_env (Some (error_body 1305 ''exists'')) (Inr (404, []))"
  let ?E3 = "stub_env (Some (JObj [(''error'', JObj [(''code'', JFloat 1401), (''message'', JNull)])]))
               (Inr (400, []))"
  let ?E4 = "stub_env (Some (JObj [(''error'', JObj [(''code'', JStr ''1401''), (''message'', JNull)])]))
               (Inr (400, []))"
  have a: "processResponse ?E1 \<lparr>status = 200, data = ''[7]''\<rparr> = Inr (JArr [JInt 7])"
    using processResponse_table [of "\<lparr>status = 200, data = ''[7]''\<rparr>" ?E1 "JArr [JInt 7]"]
    by (simp add: stub_env_def)
  have b: "\<exists>msg. processResponse ?E2 \<lparr>status = 404, data = []\<rparr> =
             Inl (BBTError (amended_kind 404 (JInt 1305)) msg)"
    using processResponse_table [of "\<lparr>status = 404, data = []\<rparr>" ?E2 _
        "[(''error'', JObj [(''code'', JInt 1305), (''message'', JStr ''exists'')])]"
        "[(''code'', JInt 1305), (''message'', JStr ''exists'')]" "JInt 1305" "JStr ''exists''"]
    by (simp add: stub_env_def error_body_def)
  have c: "\<exists>msg. processResponse ?E3 \<lparr>status = 400, data = []\<rparr> =
             Inl (BBTError (amended_kind 400 (JFloat 1401)) msg)"
    using processResponse_table [of "\<lparr>status = 400, data = []\<rparr>" ?E3 _
        "[(''error'', JObj [(''code'', JFloat 1401), (''message'', JNull)])]"
        "[(''code'', JFloat 1401), (''message'', JNull)]" "JFloat 1401" JNull]
    by (simp add: stub_env_def)
  have d: "\<exists>msg. processResponse ?E4 \<lparr>status = 400, data = []\<rparr> =
             Inl (BBTError (amended_kind 400 (JStr ''1401'')) msg)"
    using processResponse_table [of "\<lparr>status = 400, data = []\<rparr>" ?E4 _
        "[(''error'', JObj [(''code'', JStr ''1401''), (''message'', JNull)])]"
        "[(''code'', JStr ''1401''), (''message'', JNull)]" "JStr ''1401''" JNull]
    by (simp add: stub_env_def)
  have k: "amended_kind 404 (JInt 1305) = AlreadyExistError"
    "amended_kind 400 (JFloat 1401) = ParameterError"
    "amended_kind 400 (JStr ''1401'') = UnexpectedError"
    by (simp_all add: amended_kind_def spec_kind_def spec_table_def)
  from a b c d k show ?thesis by simp
qed

text \<open>
  The claim as first stated fails at status 500 with code 9999: the table of the
  specification gives \<open>Unexpected\<close>, the code raises \<open>InternalError\<close>.
\<close>

theorem processResponse_500_counterexample:
  "processResponse (stub_env (Some (error_body 9999 ''boom'')) (Inr (500, [])))
     \<lparr>status = 500, data = []\<rparr> =
     Inl (BBTError InternalError ''Status: 500; Code 9999; Message: boom'') \<and>
   spec_table 500 9999 = UnexpectedError \<and>
   spec_kind 500 (JInt 9999) = UnexpectedError"
  by (simp add: processResponse_def raise_error_def stub_env_def error_body_def spec_table_def
      spec_kind_def str_int_def str_nat.simps Let_def)

text \<open>
  C3, as amended. A response text that does not parse raises \<open>JSONDecodeError\<close>, at any
  status. A response with a status of 400 or above whose parsed body lacks \<open>error.code\<close>
  or \<open>error.message\<close> raises \<open>KeyError\<close> or Python's own \<open>TypeError\<close>. The module
  has no class for a malformed response, and none of its own classes is raised.
\<close>

theorem processResponse_malformed:
  "(json_loads E (data resp) = None \<longrightarrow> processResponse E resp = Inl JSONDecodeError) \<and>
   (400 \<le> status resp \<and> json_loads E (data resp) = Some body \<and> \<not> has_error_fields body
      \<longrightarrow> processResponse E resp \<in>
            {Inl BuiltinTypeError, Inl (KeyError (JStr ''error'')),
             Inl (KeyError (JStr ''code'')), Inl (KeyError (JStr ''message''))})"
proof (intro conjI impI)
  assume "json_loads E (data resp) = None"
  then show "processResponse E resp = Inl JSONDecodeError"
    by (simp add: processResponse_def)
next
  assume h: "400 \<le> status resp \<and> json_loads E (data resp) = Some body \<and> \<not> has_error_fields body"
  show "processResponse E resp \<in>
          {Inl BuiltinTypeError, Inl (KeyError (JStr ''error'')),
           Inl (KeyError (JStr ''code'')), Inl (KeyError (JStr ''message''))}"
  proof (cases body)
    case (JObj kvs)
    show ?thesis
    proof (cases "map_of kvs ''error''")
      case None
      with h JObj show ?thesis by (simp add: processResponse_def)
    next
      case (Some err)
      with h JObj show ?thesis
        by (cases err) (auto simp add: processResponse_def split: option.splits)
    qed
  qed (use h in \<open>simp_all add: processResponse_def\<close>)
qed

theorem processResponse_malformed_witness:
  "processResponse (stub_env None (Inr (502, ''<html>''))) \<lparr>status = 502, data = ''<html>''\<rparr> =
     Inl JSONDecodeError \<and>
   processResponse (stub_env (Some (JObj [(''error'', JStr ''down'')])) (Inr (503, [])))
     \<lparr>status = 503, data = []\<rparr> \<in>
     {Inl BuiltinTypeError, Inl (KeyError (JStr ''error'')),
      Inl (KeyError (JStr ''code'')), Inl (KeyError (JStr ''message''))}"
proof -
  let ?E1 = "stub_env None (Inr (502, ''<html>''))"
  let ?E2 = "stub_env (Some (JObj [(''error'', JStr ''down'')])) (Inr (503, []))"
  have a: "processResponse ?E1 \<lparr>status = 502, data = ''<html>''\<rparr> = Inl JSONDecodeError"
    using processResponse_malformed [of ?E1 "\<lparr>status = 502, data = ''<html>''\<rparr>"]
    by (simp add: stub_env_def)
  have b: "processResponse ?E2 \<lparr>status = 503, data = []\<rparr> \<in>
     {Inl BuiltinTypeError, Inl (KeyError (JStr ''error'')),
      Inl (KeyError (JStr ''code'')), Inl (KeyError (JStr ''message''))}"
    using processResponse_malformed [of ?E2 "\<lparr>status = 503, data = []\<rparr>"
        "JObj [(''error'', JStr ''down'')]"]
    by (simp add: stub_env_def)
  from a b show ?thesis by simp
qed

text \<open>
  The claim as first stated fails at status 400 with the body \<open>{}\<close>: the lookup of
  \<open>error\<close> raises \<open>KeyError\<close>, which nothing in the module catches.
\<close>

theorem processResponse_malformed_counterexample:
  "processResponse (stub_env (Some (JObj [])) (Inr (400, ''{}''))) \<lparr>status = 400, data = ''{}''\<rparr> =
     Inl (KeyError (JStr ''error''))"
  by (simp add: processResponse_def stub_env_def)

text \<open>A body that carries both fields never raises an exception of Python itself.\<close>

lemma processResponse_well_formed:
  assumes "400 \<le> status resp" and "json_loads E (data resp) = Some body"
    and "has_error_fields body"
  shows "\<exists>k msg. processResponse E resp = Inl (BBTError k msg)"
proof -
  from assms(3) obtain kvs e c m where
    "body = JObj kvs" "map_of kvs ''error'' = Some (JObj e)"
    "map_of e ''code'' = Some c" "map_of e ''message'' = Some m"
    by (cases body) (auto split: option.splits json.splits)
  moreover have "\<exists>k msg. raise_error E (status resp) c m = BBTError k msg"
    by (simp add: raise_error_def Let_def)
  ultimately show ?thesis
    using assms(1,2) by (auto simp add: processResponse_def Let_def)
qed

section \<open>Requests on the wire\<close>

text \<open>
  C4. The claim asks for an authenticated GET. \<open>read\<close> passes \<open>False\<close> for \<open>auth\<close>
  to \<open>__getData__\<close>: with the defaults it issues one GET against
  \<open>/v1/data/read/<channel>/<resource>\<close> with \<open>limit = 1\<close>, and neither this request nor
  any other request of \<open>read\<close> carries an Authorization header.
\<close>

theorem read_not_signed:
  "fst (read_defaults E self chan res) =
     [GET (base_url self (''/v1/data/read/'' @ chan @ ''/'' @ res))
        [(''limit'', JInt 1), (''source'', JStr ''raw'')]
        [(''Content-Type'', ''application/json''), (''Date'', formatdate E)]] \<and>
   map (header ''Authorization'') (fst (read_defaults E self chan res)) = [None] \<and>
   list_all (\<lambda>req. header ''Authorization'' req = None)
     (fst (read E self chan res limit source time_range data_filter sample_rate))"
  by (simp add: read_defaults_def read_def read_query_def readEndpoint_def fst_getData
      header_def Let_def)

theorem read_not_signed_witness:
  "fst (read_defaults (stub_env (Some (JArr [])) (Inr (200, ''[]''))) stub_bbt ''c'' ''r'') =
     [GET ''http://api.beebotte.com:80/v1/data/read/c/r''
        [(''limit'', JInt 1), (''source'', JStr ''raw'')]
        [(''Content-Type'', ''application/json''),
         (''Date'', ''Tue, 03 Nov 2015 10:00:00 -0000'')]]"
  using read_not_signed [of "stub_env (Some (JArr [])) (Inr (200, ''[]''))" stub_bbt
      "''c''" "''r''"]
  by (simp add: base_url_def stub_bbt_def stub_env_def)

text \<open>
  C5. The claim asks for one authenticated POST. Both bulk methods raise \<open>NameError\<close>
  while they build the endpoint, for every channel and every array, and issue no request.
\<close>

theorem bulk_raises_NameError:
  "writeBulk E self chan data_array = ([], Inl (NameError ''resource'')) \<and>
   publishBulk E self chan data_array = ([], Inl (NameError ''resource''))"
  by (simp add: writeBulk_def publishBulk_def)

theorem bulk_raises_NameError_witness:
  "writeBulk (stub_env (Some (JBool True)) (Inr (200, ''true''))) stub_bbt ''c''
     (JArr [JObj [(''resource'', JStr ''r1''), (''data'', JInt 1)],
            JObj [(''resource'', JStr ''r2''), (''data'', JInt 2), (''ts'', JInt 5)]]) =
     ([], Inl (NameError ''resource''))"
  using bulk_raises_NameError [of "stub_env (Some (JBool True)) (Inr (200, ''true''))" stub_bbt
      "''c''"]
  by simp

text \<open>
  C6, as amended. A request sent with \<open>auth\<close> disabled carries no Authorization header.
  The GET helper, and so the public read, sends no Content-MD5. The POST helper computes
  the content hash of the body all the same and sends it as Content-MD5.
\<close>

theorem unauthenticated_headers:
  "map (header ''Authorization'') (fst (getData E self uri query False)) = [None] \<and>
   map (header ''Content-MD5'') (fst (getData E self uri query False)) = [None] \<and>
   map (header ''Authorization'') (fst (postData E self uri body False)) = [None] \<and>
   map (header ''Content-MD5'') (fst (postData E self uri body False)) =
     [Some (b64encode E (md5_digest E body))] \<and>
   list_all (\<lambda>req. header ''Authorization'' req = None \<and> header ''Content-MD5'' req = None)
     (fst (readPublic E self owner chan res limit source time_range data_filter
        sample_rate))"
  by (simp add: fst_getData fst_postData header_def readPublic_def read_query_def Let_def)

theorem unauthenticated_headers_witness:
  "map (header ''Authorization'')
     (fst (readPublic (stub_env (Some (JArr [])) (Inr (200, ''[]''))) stub_bbt
        ''owner'' ''c'' ''r'' (JInt 750) (JStr ''raw'') JNull JNull JNull)) = [None]"
  using unauthenticated_headers [where E = "stub_env (Some (JArr [])) (Inr (200, ''[]''))"
      and self = stub_bbt and owner = "''owner''" and chan = "''c''" and res = "''r''"
      and limit = "JInt 750" and source = "JStr ''raw''" and time_range = JNull
      and data_filter = JNull and sample_rate = JNull]
  by (simp add: readPublic_def read_query_def fst_getData header_def)

text \<open>
  The claim as first stated fails for a POST with \<open>auth\<close> disabled: the request carries
  the Content-MD5 of its body.
\<close>

theorem postData_md5_counterexample:
  "map (header ''Content-MD5'')
     (fst (postData (stub_env None (Inr (200, ''{}''))) stub_bbt ''/v1/data/write/c/r'' ''{}''
        False)) = [Some ''b64(md5({}))'']"
  by (simp add: fst_postData header_def stub_env_def)

text \<open>
  C10. \<open>write\<close> and \<open>publish\<close> send the caller's \<open>ts\<close> when it is truthy. When it is
  falsy (0, \<open>None\<close>, or left out, which is \<open>None\<close>) the \<open>ts\<close> of the body is the
  system time in milliseconds since the epoch.
\<close>

theorem write_publish_ts:
  "(truthy ts \<longrightarrow>
      map req_data (fst (bbt_write E self chan res v ts)) =
        [json_dumps E (JObj [(''data'', v), (''ts'', ts)])] \<and>
      map req_data (fst (publish E self chan res v ts source)) =
        [json_dumps E (JObj ((''data'', v) #
           (if truthy source then [(''source'', source)] else []) @ [(''ts'', ts)]))]) \<and>
   (\<not> truthy ts \<longrightarrow>
      map req_data (fst (bbt_write E self chan res v ts)) =
        [json_dumps E (JObj [(''data'', v), (''ts'', JInt (time_ms E))])] \<and>
      map req_data (fst (publish E self chan res v ts source)) =
        [json_dumps E (JObj ((''data'', v) #
           (if truthy source then [(''source'', source)] else []) @
           [(''ts'', JInt (time_ms E))]))])"
  by (simp add: bbt_write_def publish_def fst_postData Let_def)

theorem write_publish_ts_witness:
  "map req_data (fst (bbt_write (stub_env None (Inr (200, ''true''))) stub_bbt ''c'' ''r''
      (JInt 21) (JInt 0))) = [''data=21;ts=1446544800000;''] \<and>
   map req_data (fst (publish (stub_env None (Inr (200, ''true''))) stub_bbt ''c'' ''r''
      (JInt 21) JNull JNull)) = [''data=21;ts=1446544800000;''] \<and>
   map req_data (fst (bbt_write (stub_env None (Inr (200, ''true''))) stub_bbt ''c'' ''r''
      (JInt 21) (JInt 5))) = [''data=21;ts=5;'']"
proof -
  let ?E = "stub_env None (Inr (200, ''true''))"
  have t: "time_ms ?E = 1446544800000"
    and d: "\<And>kvs. json_dumps ?E (JObj kvs) =
              concat (map (\<lambda>(k, v). k @ ''='' @ stub_str v @ '';'') kvs)"
    by (simp_all add: stub_env_def)
  have n: "str_int 21 = ''21''" "str_int 5 = ''5''" "str_int 1446544800000 = ''1446544800000''"
    by (simp_all add: str_int_def str_nat.simps)
  have a: "map req_data (fst (bbt_write ?E stub_bbt ''c'' ''r'' (JInt 21) (JInt 0))) =
             [json_dumps ?E (JObj [(''data'', JInt 21), (''ts'', JInt (time_ms ?E))])]"
    using write_publish_ts [of "JInt 0" ?E stub_bbt "''c''" "''r''" "JInt 21"] by simp
  have b: "map req_data (fst (publish ?E stub_bbt ''c'' ''r'' (JInt 21) JNull JNull)) =
             [json_dumps ?E (JObj [(''data'', JInt 21), (''ts'', JInt (time_ms ?E))])]"
    using write_publish_ts [of JNull ?E stub_bbt "''c''" "''r''" "JInt 21" JNull] by simp
  have c: "map req_data (fst (bbt_write ?E stub_bbt ''c'' ''r'' (JInt 21) (JInt 5))) =
             [json_dumps ?E (JObj [(''data'', JInt 21), (''ts'', JInt 5)])]"
    using write_publish_ts [of "JInt 5" ?E stub_bbt "''c''" "''r''" "JInt 21"] by simp
  show ?thesis
    unfolding a b c t d by (simp add: n)
qed

section \<open>Client authentication\<close>

text \<open>
  C7. For every session id, channel, resource, ttl and pair of flags, \<open>auth_client\<close> signs
  the string \<open><sid>:<channel>.<resource>.:ttl=<ttl>:read=<r>:write=<w>\<close>, the flags
  written \<open>true\<close> or \<open>false\<close>; it returns a string and depends on neither the transport
  nor the clock. With \<open>sid1\<close>, \<open>presence:chat\<close>, \<open>*\<close>, 60, true, false the string
  signed is \<open>sid1:presence:chat.*.:ttl=60:read=true:write=false\<close>.
\<close>

theorem auth_client_string:
  "auth_client E self sid chan res ttl rd wr =
     sign E self (sid @ '':'' @ chan @ ''.'' @ res @ ''.:ttl='' @ str_int ttl @
       '':read='' @ (if rd then ''true'' else ''false'') @
       '':write='' @ (if wr then ''true'' else ''false'')) \<and>
   auth_client (E\<lparr>formatdate := d, time_ms := t, requests := f\<rparr>) self sid chan res
     ttl rd wr = auth_client E self sid chan res ttl rd wr \<and>
   auth_client E self ''sid1'' ''presence:chat'' ''*'' 60 True False =
     sign E self ''sid1:presence:chat.*.:ttl=60:read=true:write=false''"
  by (simp add: auth_client_def sign_def str_int_60 Let_def)

theorem auth_client_string_witness:
  "auth_client (stub_env None (Inr (200, []))) stub_bbt ''sid1'' ''presence:chat'' ''*'' 60
     True False =
   ''AK:b64(hmac(SK,sid1:presence:chat.*.:ttl=60:read=true:write=false))''"
  using auth_client_string [of "stub_env None (Inr (200, []))" stub_bbt]
  by (simp add: sign_def stub_env_def stub_bbt_def str_int_60)

section \<open>Resources and data points\<close>

lemma fst_recentVal:
  "fst (recentVal E self) = fst (read_defaults E (bbt self) (channel self) (resource self))"
  by (simp add: recentVal_def read_defaults_def split: prod.splits sum.splits)

lemma snd_recentVal:
  "snd (recentVal E self) =
     (case snd (read_defaults E (bbt self) (channel self) (resource self)) of
        Inl e \<Rightarrow> Inl e | Inr records \<Rightarrow> getitem_int records 0)"
  by (simp add: recentVal_def read_defaults_def split: prod.splits sum.splits)

text \<open>
  C8, as amended. \<open>recentVal\<close> performs the read with \<open>limit = 1\<close> and returns the first
  element of the sequence that the read returns. When that sequence is empty, the
  subscript \<open>[0]\<close> raises \<open>IndexError\<close>: the access is out of range, and no
  \<open>NotFoundError\<close> is raised in its place.
\<close>

theorem recentVal_first:
  "fst (recentVal E self) = fst (read_defaults E (bbt self) (channel self) (resource self)) \<and>
   map req_params (fst (recentVal E self)) = [[(''limit'', JInt 1), (''source'', JStr ''raw'')]] \<and>
   (snd (read_defaults E (bbt self) (channel self) (resource self)) = Inr (JArr (x # xs))
      \<longrightarrow> snd (recentVal E self) = Inr x) \<and>
   (snd (read_defaults E (bbt self) (channel self) (resource self)) = Inr (JArr [])
      \<longrightarrow> snd (recentVal E self) = Inl IndexError)"
  by (simp add: fst_recentVal snd_recentVal seq_index_def read_defaults_def read_def
      read_query_def fst_getData Let_def)

lemma snd_read_defaults_stub:
  "snd (read_defaults (stub_env (Some body) (Inr (200, t))) self chan res) = Inr body"
  by (simp add: read_defaults_def read_def read_query_def getData_def send_def
      processResponse_def stub_env_def Let_def)

theorem recentVal_first_witness:
  "snd (recentVal (stub_env (Some (JArr [JInt 3, JInt 4])) (Inr (200, ''[3,4]'')))
     \<lparr>channel = ''c'', resource = ''r'', bbt = stub_bbt\<rparr>) = Inr (JInt 3) \<and>
   snd (recentVal (stub_env (Some (JArr [])) (Inr (200, ''[]'')))
     \<lparr>channel = ''c'', resource = ''r'', bbt = stub_bbt\<rparr>) = Inl IndexError"
  using
    recentVal_first [of "stub_env (Some (JArr [JInt 3, JInt 4])) (Inr (200, ''[3,4]''))"
      "\<lparr>channel = ''c'', resource = ''r'', bbt = stub_bbt\<rparr>" "JInt 3" "[JInt 4]"]
    recentVal_first [of "stub_env (Some (JArr [])) (Inr (200, ''[]''))"
      "\<lparr>channel = ''c'', resource = ''r'', bbt = stub_bbt\<rparr>"]
  by (simp add: snd_read_defaults_stub)

text \<open>
  The claim as first stated fails when the read returns the empty sequence: the result is
  \<open>IndexError\<close>, an exception of Python, not the module's \<open>NotFoundError\<close>.
\<close>

theorem recentVal_empty_counterexample:
  "snd (recentVal (stub_env (Some (JArr [])) (Inr (200, ''[]'')))
     \<lparr>channel = ''c'', resource = ''r'', bbt = stub_bbt\<rparr>) = Inl IndexError"
  by (simp add: snd_recentVal snd_read_defaults_stub seq_index_def)

text \<open>
  C9. For every data point and owner, \<open>fromJSON\<close> of its \<open>toJSON\<close> succeeds with a data
  point that has the same \<open>data\<close> and \<open>ts\<close> and whose channel and resource are \<open>None\<close>.
\<close>

theorem fromJSON_toJSON:
  "fromJSON (toJSON p owner) =
     Inr \<lparr>dp_channel = JNull, dp_resource = JNull, dp_data = dp_data p, dp_ts = dp_ts p\<rparr>"
  by (simp add: fromJSON_def toJSON_def)

theorem fromJSON_toJSON_witness:
  "fromJSON (toJSON \<lparr>dp_channel = JStr ''c'', dp_resource = JStr ''r'', dp_data = JInt 21,
      dp_ts = JInt 1446544800000\<rparr> (JStr ''owner'')) =
     Inr \<lparr>dp_channel = JNull, dp_resource = JNull, dp_data = JInt 21,
          dp_ts = JInt 1446544800000\<rparr>"
  using fromJSON_toJSON [of "\<lparr>dp_channel = JStr ''c'', dp_resource = JStr ''r'',
      dp_data = JInt 21, dp_ts = JInt 1446544800000\<rparr>" "JStr ''owner''"]
  by simp

end
